theory Spec2Isabelle
  imports Main "HOL-Library.AList"
begin

section \<open>Python strings\<close>

text \<open>
  A Python \<open>str\<close> is modelled as a \<open>string\<close>, one \<open>char\<close> per code point; the model
  covers the code points below 256. In that range the regular-expression class
  \<^verbatim>\<open>\d\<close> accepts exactly the ten ASCII digits, while \<open>str.isdigit\<close> also accepts the
  three superscript digits U+00B2, U+00B3 and U+00B9.
\<close>

abbreviation bsl :: char where
  "bsl \<equiv> CHR 0x5C"

definition re_digit :: "char \<Rightarrow> bool" where
  "re_digit c = (c \<in> set ''0123456789'')"

definition isdigit_char :: "char \<Rightarrow> bool" where
  "isdigit_char c = (re_digit c \<or> c \<in> set [CHR 0xB2, CHR 0xB3, CHR 0xB9])"

text \<open>\<open>s.isdigit()\<close>: every character is a digit and there is at least one.\<close>

definition isdigit :: "string \<Rightarrow> bool" where
  "isdigit s = (s \<noteq> [] \<and> list_all isdigit_char s)"

text \<open>\<open>s.startswith(p)\<close>.\<close>

definition startswith :: "string \<Rightarrow> string \<Rightarrow> bool" where
  "startswith p s = (take (length p) s = p)"

text \<open>\<open>sub in s\<close>: \<open>sub\<close> occurs in \<open>s\<close> as a contiguous substring.\<close>

fun str_in :: "string \<Rightarrow> string \<Rightarrow> bool" where
  "str_in sub [] = (sub = [])"
| "str_in sub (c # cs) = (startswith sub (c # cs) \<or> str_in sub cs)"

text \<open>
  \<open>s.split(sep, 1)\<close> for a one-character separator: two parts, cut at the first
  separator, when there is one, and the whole string as the only part otherwise.
\<close>

definition split1 :: "char \<Rightarrow> string \<Rightarrow> string list" where
  "split1 sep s =
     (if sep \<in> set s
      then [takeWhile (\<lambda>c. c \<noteq> sep) s, tl (dropWhile (\<lambda>c. c \<noteq> sep) s)]
      else [s])"

text \<open>
  \<open>s.replace(old, new)\<close>: every non-overlapping occurrence of \<open>old\<close>, found from left
  to right, becomes \<open>new\<close>. For the empty \<open>old\<close> Python puts \<open>new\<close> before every
  character and at the end.
\<close>

function str_replace :: "string \<Rightarrow> string \<Rightarrow> string \<Rightarrow> string" where
  "str_replace old new [] = (if old = [] then new else [])"
| "str_replace old new (c # cs) =
     (if old = [] then new @ concat (map (\<lambda>x. x # new) (c # cs))
      else if startswith old (c # cs)
      then new @ str_replace old new (drop (length old) (c # cs))
      else c # str_replace old new cs)"
  by pat_completeness auto
termination
  by (relation "measure (\<lambda>(old, new, s). length s)") auto

section \<open>The shortcut tables\<close>

text \<open>
  A Python \<open>dict\<close> keeps its keys in insertion order, so each table is an association
  list. \<open>d.update(e)\<close> stores the pairs of \<open>e\<close> in order: a key that \<open>d\<close> already has
  keeps its place and takes the new value, a new key goes to the end.
\<close>

type_synonym shortcuts = "(string \<times> string) list"

definition dict_update :: "shortcuts \<Rightarrow> shortcuts \<Rightarrow> shortcuts" where
  "dict_update d e = fold (\<lambda>(k, v) acc. AList.update k v acc) e d"

definition DERIVATIVE_SHORTCUTS :: shortcuts where
  "DERIVATIVE_SHORTCUTS =
    [(''d/dx'', bsl # ''frac{d}{dx}''),
     (''d/dy'', bsl # ''frac{d}{dy}''),
     (''d/dt'', bsl # ''frac{d}{dt}''),
     (''d2/dx2'', bsl # ''frac{d^2}{dx^2}''),
     (''d3/dx3'', bsl # ''frac{d^3}{dx^3}''),
     (''d4/dx4'', bsl # ''frac{d^4}{dx^4}''),
     (''d5/dx5'', bsl # ''frac{d^5}{dx^5}'')]"

definition INTEGRAL_SHORTCUTS :: shortcuts where
  "INTEGRAL_SHORTCUTS =
    [(''int'', bsl # ''int''),
     (''integral'', bsl # ''int''),
     (''iint'', bsl # ''iint''),
     (''iiint'', bsl # ''iiint''),
     (''oint'', bsl # ''oint'')]"

definition FUNCTION_SHORTCUTS :: shortcuts where
  "FUNCTION_SHORTCUTS =
    [(''sqrt'', bsl # ''sqrt''),
     (''root'', bsl # ''sqrt''),
     (''abs'', bsl # ''left|#'' @ bsl # ''right|''),
     (''sin'', bsl # ''sin''),
     (''cos'', bsl # ''cos''),
     (''tan'', bsl # ''tan''),
     (''csc'', bsl # ''csc''),
     (''sec'', bsl # ''sec''),
     (''cot'', bsl # ''cot''),
     (''arcsin'', bsl # ''arcsin''),
     (''arccos'', bsl # ''arccos''),
     (''arctan'', bsl # ''arctan''),
     (''ln'', bsl # ''ln''),
     (''lg'', bsl # ''log''),
     (''log'', bsl # ''log''),
     (''log10'', bsl # ''log_{10}''),
     (''log2'', bsl # ''log_{2}'')]"

definition FRACTION_SHORTCUTS :: shortcuts where
  "FRACTION_SHORTCUTS = [(''//'', bsl # ''frac{#}{#}'')]"

definition GREEK_SHORTCUTS :: shortcuts where
  "GREEK_SHORTCUTS =
    [(''alpha'', bsl # ''alpha''),
     (''beta'', bsl # ''beta''),
     (''gamma'', bsl # ''gamma''),
     (''delta'', bsl # ''delta''),
     (''epsilon'', bsl # ''epsilon''),
     (''zeta'', bsl # ''zeta''),
     (''eta'', bsl # ''eta''),
     (''theta'', bsl # ''theta''),
     (''iota'', bsl # ''iota''),
     (''kappa'', bsl # ''kappa''),
     (''lambda'', bsl # ''lambda''),
     (''mu'', bsl # ''mu''),
     (''nu'', bsl # ''nu''),
     (''xi'', bsl # ''xi''),
     (''pi'', bsl # ''pi''),
     (''rho'', bsl # ''rho''),
     (''sigma'', bsl # ''sigma''),
     (''tau'', bsl # ''tau''),
     (''upsilon'', bsl # ''upsilon''),
     (''phi'', bsl # ''phi''),
     (''chi'', bsl # ''chi''),
     (''psi'', bsl # ''psi''),
     (''omega'', bsl # ''omega'')]"

definition OPERATOR_SHORTCUTS :: shortcuts where
  "OPERATOR_SHORTCUTS =
    [(''sum'', bsl # ''sum''),
     (''prod'', bsl # ''prod''),
     (''lim'', bsl # ''lim''),
     (''to'', bsl # ''to''),
     (''rightarrow'', bsl # ''rightarrow''),
     (''leftarrow'', bsl # ''leftarrow''),
     (''infty'', bsl # ''infty''),
     (''infinity'', bsl # ''infty'')]"

definition get_all_shortcuts :: shortcuts where
  "get_all_shortcuts =
     fold (\<lambda>e d. dict_update d e)
       [DERIVATIVE_SHORTCUTS, INTEGRAL_SHORTCUTS, FUNCTION_SHORTCUTS,
        FRACTION_SHORTCUTS, GREEK_SHORTCUTS, OPERATOR_SHORTCUTS] []"

section \<open>The shortcut expander\<close>

datatype py_error = ValueError_unpack | ValueError_empty_list | IndexError

text \<open>
  \<^verbatim>\<open>re.match(r'd(\d*)/d([xyz])(\d*)', s)\<close>: the match is anchored at the start of \<open>s\<close>
  only, and the result holds the three groups. The greedy \<^verbatim>\<open>\d*\<close> takes the longest
  run of digits; giving a digit back never helps, since the next pattern character
  is not a digit.
\<close>

definition re_match_slash :: "string \<Rightarrow> (string \<times> char \<times> string) option" where
  "re_match_slash s =
     (case s of
        [] \<Rightarrow> None
      | c # r \<Rightarrow>
          if c = CHR ''d'' then
            (case dropWhile re_digit r of
               a # b # v # r' \<Rightarrow>
                 if a = CHR ''/'' \<and> b = CHR ''d'' \<and> v \<in> set ''xyz''
                 then Some (takeWhile re_digit r, v, takeWhile re_digit r')
                 else None
             | _ \<Rightarrow> None)
          else None)"

text \<open>\<^verbatim>\<open>re.match(r'd(\d*)([xyz])', s)\<close>, with its two groups.\<close>

definition re_match_plain :: "string \<Rightarrow> (string \<times> char) option" where
  "re_match_plain s =
     (case s of
        [] \<Rightarrow> None
      | c # r \<Rightarrow>
          if c = CHR ''d'' then
            (case dropWhile re_digit r of
               v # r' \<Rightarrow>
                 if v \<in> set ''xyz'' then Some (takeWhile re_digit r, v) else None
             | _ \<Rightarrow> None)
          else None)"

text \<open>The f-string \<^verbatim>\<open>f"\\frac{{d^{order}}}{{d{var}^{order}}} {function_part}"\<close>.\<close>

definition derivative_latex :: "string \<Rightarrow> char \<Rightarrow> string \<Rightarrow> string" where
  "derivative_latex order var function_part =
     bsl # ''frac{d^'' @ order @ ''}{d'' @ [var] @ ''^'' @ order @ ''} '' @ function_part"

text \<open>\<open>group(1) or '1'\<close>: the empty group is false and gives the default.\<close>

definition or_default :: "string \<Rightarrow> string" where
  "or_default g = (if g = [] then ''1'' else g)"

text \<open>The loop over the merged table (the general path).\<close>

definition apply_shortcut :: "string \<times> string \<Rightarrow> string \<Rightarrow> string" where
  "apply_shortcut p result =
     (case p of (shortcut, latex) \<Rightarrow>
        if str_in shortcut result \<and> \<not> str_in ''#'' latex
        then str_replace shortcut latex result
        else result)"

definition apply_shortcuts :: "shortcuts \<Rightarrow> string \<Rightarrow> string" where
  "apply_shortcuts tab text = fold apply_shortcut tab text"

text \<open>
  \<open>convert_shortcut\<close>. The unpacking \<open>derivative_part, function_part = parts\<close> raises
  unless \<open>parts\<close> has two elements; the \<open>return result\<close> of the derivative path
  belongs to the branch \<open>len(parts) == 2\<close>, after both pattern cases.
\<close>

definition convert_shortcut :: "string \<Rightarrow> py_error + string" where
  "convert_shortcut text =
     (if startswith ''d'' text \<and> (str_in ''/'' text \<or> isdigit (take 1 (drop 1 text)))
      then
        (let parts = split1 CHR '' '' text in
         if length parts = 2 then
           (case parts of
              [derivative_part, function_part] \<Rightarrow>
                if str_in ''/'' derivative_part then
                  (case re_match_slash derivative_part of
                     Some (g1, var, g3) \<Rightarrow>
                       Inr (derivative_latex (or_default g1) var function_part)
                   | None \<Rightarrow> Inr text)
                else
                  (case re_match_plain derivative_part of
                     Some (g1, var) \<Rightarrow>
                       Inr (derivative_latex (or_default g1) var function_part)
                   | None \<Rightarrow> Inr text)
            | _ \<Rightarrow> Inl ValueError_unpack)
         else Inr (apply_shortcuts get_all_shortcuts text))
      else Inr (apply_shortcuts get_all_shortcuts text))"

section \<open>SymPy expressions\<close>

text \<open>
  The converter reads SymPy objects; the model keeps what it reads of them.
  \<^item> \<open>Integral f limits\<close>: \<open>args[0]\<close> and \<open>limits\<close>, each limit a tuple of expressions;
  \<^item> \<open>Derivative f variables n\<close>: \<open>expr\<close>, \<open>variables\<close> and \<open>derivative_count\<close>; an
    entry of \<open>variables\<close> is a variable or a pair of a variable and an order;
  \<^item> \<open>Eq lhs rhs\<close>;
  \<^item> \<open>Function name args\<close>: \<open>func.__name__\<close> and \<open>args\<close>;
  \<^item> \<open>Generic s\<close>: any other object, \<open>s\<close> being its default string form.
\<close>

datatype expr =
    Integral expr "expr list list"
  | Derivative expr "var_info list" int
  | Eq expr expr
  | Function string "expr list"
  | Generic string
and var_info =
    Var expr
  | VarTuple expr int

text \<open>The argument of \<open>sympy_to_matlab\<close>: an expression or a list of expressions.\<close>

datatype py_input = Expr expr | List "expr list"

text \<open>
  \<open>str(e)\<close>. SymPy's printer is not part of the repository: the string form of the
  four special kinds is the parameter \<open>printer\<close>.
\<close>

definition py_str :: "(expr \<Rightarrow> string) \<Rightarrow> expr \<Rightarrow> string" where
  "py_str printer e = (case e of Generic s \<Rightarrow> s | _ \<Rightarrow> printer e)"

text \<open>\<open>str(n)\<close> for a Python integer: decimal digits, with a sign when negative.\<close>

definition digit_char :: "nat \<Rightarrow> char" where
  "digit_char d = ''0123456789'' ! d"

function str_nat :: "nat \<Rightarrow> string" where
  "str_nat n = (if n < 10 then [digit_char n] else str_nat (n div 10) @ [digit_char (n mod 10)])"
  by pat_completeness auto
termination
  by (relation "measure id") auto

definition str_int :: "int \<Rightarrow> string" where
  "str_int i = (if i < 0 then CHR ''-'' # str_nat (nat (- i)) else str_nat (nat i))"

text \<open>\<open>sep.join(xs)\<close>.\<close>

fun join :: "string \<Rightarrow> string list \<Rightarrow> string" where
  "join sep [] = []"
| "join sep [x] = x"
| "join sep (x # y # ys) = x @ sep @ join sep (y # ys)"

text \<open>A string between single quotes, as \<^verbatim>\<open>'{var}'\<close> in the f-strings.\<close>

definition quoted :: "string \<Rightarrow> string" where
  "quoted s = CHR 0x27 # s @ [CHR 0x27]"

text \<open>
  A list comprehension over calls that may raise: the results in order, or the
  first error.
\<close>

fun collect :: "(py_error + 'a) list \<Rightarrow> py_error + 'a list" where
  "collect [] = Inr []"
| "collect (Inl e # rs) = Inl e"
| "collect (Inr x # rs) = (case collect rs of Inl e \<Rightarrow> Inl e | Inr xs \<Rightarrow> Inr (x # xs))"

section \<open>The MATLAB converter\<close>

definition handle_list_expression :: "py_input \<Rightarrow> py_error + expr" where
  "handle_list_expression inp =
     (case inp of
        List [] \<Rightarrow> Inl ValueError_empty_list
      | List (e # es) \<Rightarrow> Inr e
      | Expr e \<Rightarrow> Inr e)"

definition sympy_to_str :: "(expr \<Rightarrow> string) \<Rightarrow> expr \<Rightarrow> string" where
  "sympy_to_str printer e = py_str printer e"

definition process_expression_string :: "(expr \<Rightarrow> string) \<Rightarrow> expr \<Rightarrow> string" where
  "process_expression_string printer e = str_replace ''**'' ''^'' (py_str printer e)"

definition function_mappings :: "(string \<times> string) list" where
  "function_mappings =
    [(''sin'', ''sin''), (''cos'', ''cos''), (''tan'', ''tan''),
     (''csc'', ''csc''), (''sec'', ''sec''), (''cot'', ''cot''),
     (''arcsin'', ''asin''), (''arccos'', ''acos''), (''arctan'', ''atan''),
     (''ln'', ''log''), (''log10'', ''log10''), (''log2'', ''log2'')]"

text \<open>\<open>d.get(k, default)\<close>.\<close>

definition dict_get :: "(string \<times> string) list \<Rightarrow> string \<Rightarrow> string \<Rightarrow> string" where
  "dict_get d k dflt = (case map_of d k of Some v \<Rightarrow> v | None \<Rightarrow> dflt)"

text \<open>
  The conversion of one expression: the dispatch of \<open>sympy_to_matlab\<close> with the
  bodies of its handlers, one equation per kind, in the order of the
  \<open>isinstance\<close> tests. \<open>limits[0]\<close> and \<open>variables[0]\<close> raise on an empty sequence, and
  \<open>var, lower, upper = var_info\<close> raises unless the tuple has three elements.
\<close>

fun convert_expr :: "(expr \<Rightarrow> string) \<Rightarrow> expr \<Rightarrow> py_error + string" where
  "convert_expr printer (Integral integrand limits) =
     (case (case integrand of
              Integral f l \<Rightarrow> convert_expr printer integrand
            | _ \<Rightarrow> Inr (sympy_to_str printer integrand)) of
        Inl e \<Rightarrow> Inl e
      | Inr integrand_str \<Rightarrow>
          (case limits of
             [] \<Rightarrow> Inl IndexError
           | var_info # ls \<Rightarrow>
               if length var_info = 1 then
                 Inr (''int('' @ integrand_str @ '', ''
                        @ quoted (py_str printer (hd var_info)) @ '')'')
               else
                 (case var_info of
                    [var, lower, upper] \<Rightarrow>
                      Inr (''int('' @ integrand_str @ '', '' @ quoted (py_str printer var)
                             @ '', '' @ py_str printer lower
                             @ '', '' @ py_str printer upper @ '')'')
                  | _ \<Rightarrow> Inl ValueError_unpack)))"
| "convert_expr printer (Derivative func_expr variables derivative_count) =
     (case variables of
        [] \<Rightarrow> Inl IndexError
      | var_info # vs \<Rightarrow>
          (case (case var_info of
                   VarTuple v n \<Rightarrow> (v, n)
                 | Var v \<Rightarrow> (v, derivative_count)) of
             (var, order) \<Rightarrow>
               (case convert_expr printer func_expr of
                  Inl e \<Rightarrow> Inl e
                | Inr func_str \<Rightarrow>
                    if order = 1 then
                      Inr (''diff('' @ func_str @ '', '' @ quoted (py_str printer var) @ '')'')
                    else
                      Inr (''diff('' @ func_str @ '', '' @ quoted (py_str printer var)
                             @ '', '' @ str_int order @ '')''))))"
| "convert_expr printer (Eq lhs rhs) =
     (case convert_expr printer lhs of
        Inl e \<Rightarrow> Inl e
      | Inr l \<Rightarrow>
          (case convert_expr printer rhs of
             Inl e \<Rightarrow> Inl e
           | Inr r \<Rightarrow> Inr (l @ '' == '' @ r)))"
| "convert_expr printer (Function func_name args) =
     (let matlab_func = dict_get function_mappings func_name func_name in
      case collect (map (convert_expr printer) args) of
        Inl e \<Rightarrow> Inl e
      | Inr strs \<Rightarrow>
          (let matlab_args = join '', '' strs in
           if func_name = ''abs'' then Inr (''abs('' @ matlab_args @ '')'')
           else Inr (matlab_func @ ''('' @ matlab_args @ '')'')))"
| "convert_expr printer (Generic s) =
     Inr (process_expression_string printer (Generic s))"

text \<open>
  \<open>sympy_to_matlab\<close>: the list step, then the dispatch. The \<open>except\<close> clause logs and
  raises the same error again.
\<close>

definition sympy_to_matlab :: "(expr \<Rightarrow> string) \<Rightarrow> py_input \<Rightarrow> py_error + string" where
  "sympy_to_matlab printer inp =
     (case handle_list_expression inp of
        Inl e \<Rightarrow> Inl e
      | Inr e \<Rightarrow> convert_expr printer e)"

section \<open>Facts about the string operations\<close>

lemma str_in_single: "str_in [c] s = (c \<in> set s)"
  by (induction s) (auto simp: startswith_def)

lemma split1_at: "sep \<notin> set a \<Longrightarrow> split1 sep (a @ sep # b) = [a, b]"
proof -
  assume a: "sep \<notin> set a"
  have t: "takeWhile (\<lambda>c. c \<noteq> sep) (a @ sep # b) = a"
    using a by (auto simp: takeWhile_tail)
  have d: "dropWhile (\<lambda>c. c \<noteq> sep) (a @ sep # b) = sep # b"
    using a by (auto simp: dropWhile_append3)
  show ?thesis by (simp add: split1_def t d)
qed

lemma re_digit_not_space: "re_digit c \<Longrightarrow> c \<noteq> CHR '' ''"
  by (auto simp: re_digit_def)

lemma digits_no_space: "list_all re_digit ds \<Longrightarrow> CHR '' '' \<notin> set ds"
  by (induction ds) (auto dest: re_digit_not_space)

lemma xyz_not_space: "v \<in> set ''xyz'' \<Longrightarrow> v \<noteq> CHR '' ''"
  by auto

lemma takeWhile_digits:
  "list_all re_digit ds \<Longrightarrow> \<not> re_digit c \<Longrightarrow> takeWhile re_digit (ds @ c # r) = ds"
  by (simp add: takeWhile_tail list_all_iff)

lemma dropWhile_digits:
  "list_all re_digit ds \<Longrightarrow> \<not> re_digit c \<Longrightarrow> dropWhile re_digit (ds @ c # r) = c # r"
  by (simp add: dropWhile_append3 list_all_iff)

lemma takeWhile_digits_end: "list_all re_digit ds \<Longrightarrow> takeWhile re_digit ds = ds"
  by (simp add: list_all_iff)

section \<open>The derivative path\<close>

lemma re_match_slash_ok:
  assumes "list_all re_digit ord" "list_all re_digit ord2" "v \<in> set ''xyz''"
  shows "re_match_slash (''d'' @ ord @ ''/d'' @ [v] @ ord2) = Some (ord, v, ord2)"
proof -
  have n: "\<not> re_digit CHR ''/''" by (simp add: re_digit_def)
  have t: "takeWhile re_digit (ord @ CHR ''/'' # CHR ''d'' # v # ord2) = ord"
    using assms(1) n by (rule takeWhile_digits)
  have d: "dropWhile re_digit (ord @ CHR ''/'' # CHR ''d'' # v # ord2)
             = CHR ''/'' # CHR ''d'' # v # ord2"
    using assms(1) n by (rule dropWhile_digits)
  show ?thesis
    using assms(3) by (simp add: re_match_slash_def t d takeWhile_digits_end [OF assms(2)])
qed

text \<open>
  C1. An input \<open>d<order>/d<var><order'> <function_part>\<close>, the orders being runs of
  digits (possibly empty) and the variable one of x, y, z, is converted to
  \<^verbatim>\<open>\frac{d^<order>}{d<var>^<order>} <function_part>\<close>, where the order is the one
  written after the first \<open>d\<close>, and \<open>1\<close> when none is written there.
\<close>

theorem convert_shortcut_derivative:
  assumes "list_all re_digit ord" "list_all re_digit ord2" "v \<in> set ''xyz''"
  shows "convert_shortcut (''d'' @ ord @ ''/d'' @ [v] @ ord2 @ '' '' @ function_part) =
         Inr (bsl # ''frac{d^'' @ (if ord = [] then ''1'' else ord) @ ''}{d'' @ [v] @ ''^''
              @ (if ord = [] then ''1'' else ord) @ ''} '' @ function_part)"
proof -
  let ?dp = "''d'' @ ord @ ''/d'' @ [v] @ ord2"
  let ?text = "?dp @ CHR '' '' # function_part"
  have nsp: "CHR '' '' \<notin> set ?dp"
    using digits_no_space [OF assms(1)] digits_no_space [OF assms(2)] xyz_not_space [OF assms(3)]
    by simp
  have sp: "split1 CHR '' '' ?text = [?dp, function_part]"
    using nsp by (rule split1_at)
  have sw: "startswith ''d'' ?text" by (simp add: startswith_def)
  have sl: "str_in ''/'' ?text" "str_in ''/'' ?dp" by (simp_all add: str_in_single)
  have m: "re_match_slash ?dp = Some (ord, v, ord2)"
    using assms by (rule re_match_slash_ok)
  have c: "convert_shortcut ?text = Inr (derivative_latex (or_default ord) v function_part)"
    unfolding convert_shortcut_def Let_def sp
    by (simp only: sw sl m list.case option.case prod.case if_True simp_thms length_Cons
          list.size One_nat_def numeral_2_eq_2 add_0)
  have e: "''d'' @ ord @ ''/d'' @ [v] @ ord2 @ '' '' @ function_part = ?text" by simp
  show ?thesis
    unfolding e c by (simp add: derivative_latex_def or_default_def)
qed

theorem convert_shortcut_derivative_witness:
  "convert_shortcut ''d/dx x^2'' = Inr (bsl # ''frac{d^1}{dx^1} x^2'') \<and>
   convert_shortcut ''d2/dx2 x^3'' = Inr (bsl # ''frac{d^2}{dx^2} x^3'')"
  using convert_shortcut_derivative [of "[]" "[]" "CHR ''x''" "''x^2''"]
        convert_shortcut_derivative [of "''2''" "''2''" "CHR ''x''" "''x^3''"]
  by (simp add: re_digit_def)

section \<open>The derivative path without a match, and the table\<close>

lemma get_all_shortcuts_eq:
  "get_all_shortcuts = DERIVATIVE_SHORTCUTS @ INTEGRAL_SHORTCUTS @ FUNCTION_SHORTCUTS
     @ FRACTION_SHORTCUTS @ GREEK_SHORTCUTS @ OPERATOR_SHORTCUTS"
  by code_simp

text \<open>No key occurs twice, so the merged table is evaluated as the concatenation.\<close>

declare get_all_shortcuts_eq [code]

lemma convert_shortcut_parts:
  assumes "startswith ''d'' text" "str_in ''/'' text \<or> isdigit (take 1 (drop 1 text))"
    and "CHR '' '' \<in> set text"
  shows "convert_shortcut text =
     (if str_in ''/'' (takeWhile (\<lambda>c. c \<noteq> CHR '' '') text) then
        (case re_match_slash (takeWhile (\<lambda>c. c \<noteq> CHR '' '') text) of
           Some (g1, var, g3) \<Rightarrow>
             Inr (derivative_latex (or_default g1) var (tl (dropWhile (\<lambda>c. c \<noteq> CHR '' '') text)))
         | None \<Rightarrow> Inr text)
      else
        (case re_match_plain (takeWhile (\<lambda>c. c \<noteq> CHR '' '') text) of
           Some (g1, var) \<Rightarrow>
             Inr (derivative_latex (or_default g1) var (tl (dropWhile (\<lambda>c. c \<noteq> CHR '' '') text)))
         | None \<Rightarrow> Inr text))"
  using assms unfolding convert_shortcut_def Let_def split1_def
  by (simp only: if_True simp_thms list.case length_Cons list.size One_nat_def numeral_2_eq_2 add_0)

lemma convert_shortcut_general:
  assumes "\<not> (startswith ''d'' text \<and> (str_in ''/'' text \<or> isdigit (take 1 (drop 1 text))))
           \<or> CHR '' '' \<notin> set text"
  shows "convert_shortcut text = Inr (apply_shortcuts get_all_shortcuts text)"
  using assms unfolding convert_shortcut_def Let_def split1_def
  by auto

lemma convert_shortcut_no_match:
  assumes "re_match_slash (takeWhile (\<lambda>c. c \<noteq> CHR '' '') text) = None"
    and "re_match_plain (takeWhile (\<lambda>c. c \<noteq> CHR '' '') text) = None"
    and "startswith ''d'' text" "str_in ''/'' text \<or> isdigit (take 1 (drop 1 text))"
    and "CHR '' '' \<in> set text"
  shows "convert_shortcut text = Inr text"
  by (simp add: convert_shortcut_parts [OF assms(3-5)] assms(1,2))

lemma re_match_slash_other:
  assumes "list_all re_digit ord" "w = [] \<or> hd w \<notin> set ''xyz''"
  shows "re_match_slash (CHR ''d'' # ord @ CHR ''/'' # CHR ''d'' # w) = None"
proof -
  have n: "\<not> re_digit CHR ''/''" by (simp add: re_digit_def)
  have d: "dropWhile re_digit (ord @ CHR ''/'' # CHR ''d'' # w) = CHR ''/'' # CHR ''d'' # w"
    using assms(1) n by (rule dropWhile_digits)
  show ?thesis
  proof (cases w)
    case Nil
    then show ?thesis using d by (simp add: re_match_slash_def)
  next
    case (Cons x xs)
    then have "x \<notin> set ''xyz''" using assms(2) by simp
    then show ?thesis using d Cons by (simp add: re_match_slash_def)
  qed
qed

lemma convert_shortcut_other_slash:
  assumes "list_all re_digit ord" "v \<notin> set ''xyz''" "CHR '' '' \<in> set (v # rest)"
  shows "convert_shortcut (''d'' @ ord @ ''/d'' @ v # rest) = Inr (''d'' @ ord @ ''/d'' @ v # rest)"
proof -
  let ?sp = "\<lambda>c. c \<noteq> CHR '' ''"
  let ?text = "CHR ''d'' # ord @ CHR ''/'' # CHR ''d'' # v # rest"
  have o: "\<And>x. x \<in> set ord \<Longrightarrow> x \<noteq> CHR '' ''"
    using digits_no_space [OF assms(1)] by auto
  have "takeWhile ?sp (ord @ CHR ''/'' # CHR ''d'' # v # rest)
          = ord @ takeWhile ?sp (CHR ''/'' # CHR ''d'' # v # rest)"
    using o by (rule takeWhile_append2)
  then have tw: "takeWhile ?sp ?text = CHR ''d'' # ord @ CHR ''/'' # CHR ''d'' # takeWhile ?sp (v # rest)"
    by simp
  have m: "re_match_slash (takeWhile ?sp ?text) = None"
  proof -
    have "takeWhile ?sp (v # rest) = [] \<or> hd (takeWhile ?sp (v # rest)) \<notin> set ''xyz''"
      using assms(2) by simp
    with assms(1) show ?thesis unfolding tw by (rule re_match_slash_other)
  qed
  have sl: "str_in ''/'' (takeWhile ?sp ?text)"
    unfolding tw by (simp add: str_in_single)
  have sw: "startswith ''d'' ?text" by (simp add: startswith_def)
  have st: "str_in ''/'' ?text \<or> isdigit (take 1 (drop 1 ?text))" by (simp add: str_in_single)
  have sp: "CHR '' '' \<in> set ?text" using assms(3) by auto
  have "convert_shortcut ?text = Inr ?text"
    by (simp only: convert_shortcut_parts [OF sw st sp] sl m if_True option.case)
  then show ?thesis by simp
qed

lemma dropWhile_digits_stop:
  assumes "list_all re_digit ds" "w = [] \<or> \<not> re_digit (hd w)"
  shows "dropWhile re_digit (ds @ w) = w"
proof (cases w)
  case Nil
  then show ?thesis using assms(1) by (simp add: list_all_iff)
next
  case (Cons x xs)
  then have "\<not> re_digit x" using assms(2) by simp
  with assms(1) show ?thesis unfolding Cons by (rule dropWhile_digits)
qed

lemma re_match_plain_other:
  assumes "list_all re_digit ord" "w = [] \<or> (\<not> re_digit (hd w) \<and> hd w \<notin> set ''xyz'')"
  shows "re_match_plain (CHR ''d'' # ord @ w) = None"
proof -
  have d: "dropWhile re_digit (ord @ w) = w"
    using assms by (intro dropWhile_digits_stop) auto
  have "re_match_plain (CHR ''d'' # ord @ w) =
          (case w of [] \<Rightarrow> None
           | v # r' \<Rightarrow> if v \<in> set ''xyz'' then Some (takeWhile re_digit (ord @ w), v) else None)"
    by (simp add: re_match_plain_def d)
  then show ?thesis
    using assms(2) by (cases w) auto
qed

lemma re_match_slash_no_slash:
  assumes "list_all re_digit ord" "w = [] \<or> (\<not> re_digit (hd w) \<and> hd w \<noteq> CHR ''/'')"
  shows "re_match_slash (CHR ''d'' # ord @ w) = None"
proof -
  have d: "dropWhile re_digit (ord @ w) = w"
    using assms by (intro dropWhile_digits_stop) auto
  have "re_match_slash (CHR ''d'' # ord @ w) =
          (case w of
             a # b # v # r' \<Rightarrow>
               if a = CHR ''/'' \<and> b = CHR ''d'' \<and> v \<in> set ''xyz''
               then Some (takeWhile re_digit (ord @ w), v, takeWhile re_digit r')
               else None
           | _ \<Rightarrow> None)"
    by (simp add: re_match_slash_def d)
  then show ?thesis
    using assms(2) by (cases w) (auto split: list.split)
qed

lemma convert_shortcut_other_plain:
  assumes "list_all re_digit ord" "\<not> re_digit v" "v \<notin> set ''xyz/''"
    and "ord \<noteq> [] \<or> CHR ''/'' \<in> set rest" "CHR '' '' \<in> set (v # rest)"
  shows "convert_shortcut (''d'' @ ord @ v # rest) = Inr (''d'' @ ord @ v # rest)"
proof -
  let ?sp = "\<lambda>c. c \<noteq> CHR '' ''"
  let ?text = "CHR ''d'' # ord @ v # rest"
  let ?w = "takeWhile ?sp (v # rest)"
  have o: "\<And>x. x \<in> set ord \<Longrightarrow> x \<noteq> CHR '' ''"
    using digits_no_space [OF assms(1)] by auto
  have "takeWhile ?sp (ord @ v # rest) = ord @ ?w"
    using o by (rule takeWhile_append2)
  then have tw: "takeWhile ?sp ?text = CHR ''d'' # ord @ ?w" by simp
  have w: "?w = [] \<or> hd ?w = v" by simp
  have m1: "re_match_slash (takeWhile ?sp ?text) = None"
    unfolding tw using assms(1) by (rule re_match_slash_no_slash) (use w assms(2,3) in auto)
  have m2: "re_match_plain (takeWhile ?sp ?text) = None"
    unfolding tw using assms(1) by (rule re_match_plain_other) (use w assms(2,3) in auto)
  have sw: "startswith ''d'' ?text" by (simp add: startswith_def)
  have st: "str_in ''/'' ?text \<or> isdigit (take 1 (drop 1 ?text))"
  proof (cases ord)
    case Nil
    then have "CHR ''/'' \<in> set rest" using assms(4) by simp
    then show ?thesis by (simp add: str_in_single)
  next
    case (Cons c cs)
    then have "re_digit c" using assms(1) by simp
    then show ?thesis using Cons by (simp add: isdigit_def isdigit_char_def)
  qed
  have sp: "CHR '' '' \<in> set ?text" using assms(5) by auto
  have "convert_shortcut ?text = Inr ?text"
    using m1 m2 sw st sp by (rule convert_shortcut_no_match)
  then show ?thesis by simp
qed

text \<open>
  C10. The derivative path knows the variables x, y and z only. An input with a
  space that starts \<open>d<digits>/d<v>\<close>, or \<open>d<digits><v>\<close> with a digit or a slash to
  enter the path, where \<open>v\<close> is a character other than x, y, z, matches neither
  pattern and is returned as it is: the table entry \<open>d/dt\<close> is not applied to
  \<open>d/dt x^2\<close>.
\<close>

theorem convert_shortcut_other_variable:
  assumes "list_all re_digit ord" "CHR '' '' \<in> set (v # rest)"
  shows "(v \<notin> set ''xyz'' \<longrightarrow>
            convert_shortcut (''d'' @ ord @ ''/d'' @ v # rest)
              = Inr (''d'' @ ord @ ''/d'' @ v # rest)) \<and>
         (\<not> re_digit v \<and> v \<notin> set ''xyz/'' \<and> (ord \<noteq> [] \<or> CHR ''/'' \<in> set rest) \<longrightarrow>
            convert_shortcut (''d'' @ ord @ v # rest) = Inr (''d'' @ ord @ v # rest))"
  using assms convert_shortcut_other_slash [of ord v rest]
    convert_shortcut_other_plain [of ord v rest]
  by blast

theorem convert_shortcut_other_variable_witness:
  "convert_shortcut ''d/dt x^2'' = Inr ''d/dt x^2'' \<and>
   convert_shortcut ''d2t x'' = Inr ''d2t x''"
  using convert_shortcut_other_variable [of "[]" "CHR ''t''" "'' x^2''"]
    convert_shortcut_other_variable [of "''2''" "CHR ''t''" "'' x''"]
  by (simp add: re_digit_def)

text \<open>
  C2. On \<open>d/dt sin\<close> the derivative path is entered and its pattern does not match;
  the function returns the input unchanged, whereas the loop over the table would
  give \<^verbatim>\<open>\frac{d}{dt} \sin\<close>.
\<close>

theorem convert_shortcut_returns_without_table:
  "convert_shortcut ''d/dt sin'' = Inr ''d/dt sin'' \<and>
   apply_shortcuts get_all_shortcuts ''d/dt sin'' = bsl # ''frac{d}{dt} '' @ bsl # ''sin''"
  by code_simp

text \<open>
  C3. The token \<open>integral\<close> has the replacement \<^verbatim>\<open>\int\<close>, without placeholder, and is
  not a substring of it; its conversion is \<^verbatim>\<open>\\int\<close>, with two backslashes, since
  the earlier key \<open>int\<close> is replaced first. In the same way \<open>lg\<close> gives \<^verbatim>\<open>\\log\<close>.
\<close>

theorem convert_shortcut_integral_token:
  "(''integral'', bsl # ''int'') \<in> set get_all_shortcuts \<and>
   \<not> str_in ''#'' (bsl # ''int'') \<and>
   \<not> str_in ''integral'' (bsl # ''int'') \<and>
   convert_shortcut ''integral'' = Inr (bsl # bsl # ''int'') \<and>
   convert_shortcut ''lg'' = Inr (bsl # bsl # ''log'')"
  by code_simp

text \<open>
  The conversion of every token of the table whose replacement has no placeholder:
  the token occurs in the result only when it is a proper substring of its
  replacement, and the result is the replacement except for fifteen tokens, in
  which another key of the table is replaced as well.
\<close>

lemma convert_shortcut_table_tokens:
  "list_all
     (\<lambda>(t, r). str_in ''#'' r \<or>
        (case convert_shortcut t of
           Inl e \<Rightarrow> False
         | Inr s \<Rightarrow>
             (str_in t s \<longrightarrow> str_in t r \<and> t \<noteq> r) \<and>
             ((s = r) =
              (t \<notin> set [''integral'', ''iint'', ''iiint'', ''oint'', ''arcsin'', ''arccos'',
                         ''arctan'', ''lg'', ''log10'', ''log2'', ''beta'', ''epsilon'',
                         ''zeta'', ''theta'', ''upsilon'']))))
     get_all_shortcuts"
  by code_simp

section \<open>Totality of the expander\<close>

lemma apply_shortcuts_id:
  "\<forall>(k, v) \<in> set tab. str_in ''#'' v \<or> \<not> str_in k text \<Longrightarrow> apply_shortcuts tab text = text"
  unfolding apply_shortcuts_def
  by (induction tab) (auto simp: apply_shortcut_def)

lemma convert_shortcut_empty: "convert_shortcut [] = Inr []"
  by code_simp

lemma convert_shortcut_is_Inr: "\<exists>s. convert_shortcut text = Inr s"
proof (cases "startswith ''d'' text \<and> (str_in ''/'' text \<or> isdigit (take 1 (drop 1 text)))
              \<and> CHR '' '' \<in> set text")
  case True
  then show ?thesis
    by (simp add: convert_shortcut_parts split: option.split)
next
  case False
  then show ?thesis
    by (simp add: convert_shortcut_general)
qed

text \<open>
  C9. \<open>convert_shortcut\<close> returns a string on every input: the unpacking of \<open>parts\<close>
  is reached with two parts only, and no other step can raise. The empty string is
  returned unchanged, and so is every string that holds no key of the table with a
  replacement free of \<open>#\<close> and whose first word matches neither derivative pattern.
\<close>

theorem convert_shortcut_never_fails:
  "(\<exists>s. convert_shortcut text = Inr s) \<and>
   convert_shortcut [] = Inr [] \<and>
   ((\<forall>(k, v) \<in> set get_all_shortcuts. str_in ''#'' v \<or> \<not> str_in k text) \<and>
    re_match_slash (takeWhile (\<lambda>c. c \<noteq> CHR '' '') text) = None \<and>
    re_match_plain (takeWhile (\<lambda>c. c \<noteq> CHR '' '') text) = None
    \<longrightarrow> convert_shortcut text = Inr text)"
proof (intro conjI impI)
  show "\<exists>s. convert_shortcut text = Inr s" by (rule convert_shortcut_is_Inr)
  show "convert_shortcut [] = Inr []" by (rule convert_shortcut_empty)
next
  assume h: "(\<forall>(k, v) \<in> set get_all_shortcuts. str_in ''#'' v \<or> \<not> str_in k text) \<and>
    re_match_slash (takeWhile (\<lambda>c. c \<noteq> CHR '' '') text) = None \<and>
    re_match_plain (takeWhile (\<lambda>c. c \<noteq> CHR '' '') text) = None"
  show "convert_shortcut text = Inr text"
  proof (cases "startswith ''d'' text \<and> (str_in ''/'' text \<or> isdigit (take 1 (drop 1 text)))
              \<and> CHR '' '' \<in> set text")
    case True
    with h show ?thesis by (simp add: convert_shortcut_no_match)
  next
    case False
    then have "convert_shortcut text = Inr (apply_shortcuts get_all_shortcuts text)"
      by (simp add: convert_shortcut_general)
    moreover have "apply_shortcuts get_all_shortcuts text = text"
      using h by (intro apply_shortcuts_id) simp
    ultimately show ?thesis by simp
  qed
qed

theorem convert_shortcut_never_fails_witness:
  "convert_shortcut ''2*y + 1'' = Inr ''2*y + 1''"
proof -
  have h: "(\<forall>(k, v) \<in> set get_all_shortcuts. str_in ''#'' v \<or> \<not> str_in k ''2*y + 1'') \<and>
   re_match_slash (takeWhile (\<lambda>c. c \<noteq> CHR '' '') ''2*y + 1'') = None \<and>
   re_match_plain (takeWhile (\<lambda>c. c \<noteq> CHR '' '') ''2*y + 1'') = None"
    by code_simp
  with convert_shortcut_never_fails [of "''2*y + 1''"] show ?thesis by blast
qed

section \<open>The MATLAB converter: results\<close>

lemma sympy_to_matlab_Expr: "sympy_to_matlab printer (Expr e) = convert_expr printer e"
  by (simp add: sympy_to_matlab_def handle_list_expression_def)

lemma handle_integral_indefinite:
  "sympy_to_matlab printer (Expr (Integral (Generic s) ([var] # ls)))
     = Inr (''int('' @ s @ '', '' @ quoted (py_str printer var) @ '')'')"
  by (simp add: sympy_to_matlab_Expr sympy_to_str_def py_str_def)

lemma handle_integral_definite:
  "sympy_to_matlab printer (Expr (Integral (Generic s) ([var, lower, upper] # ls)))
     = Inr (''int('' @ s @ '', '' @ quoted (py_str printer var) @ '', ''
            @ py_str printer lower @ '', '' @ py_str printer upper @ '')'')"
  by (simp add: sympy_to_matlab_Expr sympy_to_str_def py_str_def)

text \<open>
  C4. The integrand of an integral, unless it is an integral itself, is written
  with \<open>str\<close> and not converted: the integral of \<open>x**2\<close> keeps the Python power
  operator, \<^verbatim>\<open>int(x**2, 'x')\<close> and \<^verbatim>\<open>int(x**2, 'x', 0, 1)\<close>, while the derivative of the
  same expression, whose handler converts its operand, gives \<^verbatim>\<open>diff(x^2, 'x')\<close>.
\<close>

theorem sympy_to_matlab_integral_power:
  "sympy_to_matlab printer (Expr (Integral (Generic ''x**2'') [[Generic ''x'']]))
     = Inr ''int(x**2, 'x')'' \<and>
   sympy_to_matlab printer
       (Expr (Integral (Generic ''x**2'') [[Generic ''x'', Generic ''0'', Generic ''1'']]))
     = Inr ''int(x**2, 'x', 0, 1)'' \<and>
   sympy_to_matlab printer (Expr (Derivative (Generic ''x**2'') [Var (Generic ''x'')] 1))
     = Inr ''diff(x^2, 'x')''"
  by (simp add: sympy_to_matlab_Expr sympy_to_str_def py_str_def quoted_def
      process_expression_string_def startswith_def)






lemma str_replace_absent:
  "old \<noteq> [] \<Longrightarrow> \<not> str_in old s \<Longrightarrow> str_replace old new s = s"
  by (induction s) auto

lemma startswith_append: "startswith old (old @ b)"
  by (simp add: startswith_def)

lemma startswith_str_in: "startswith old s \<Longrightarrow> str_in old s"
  by (cases s) (auto simp: startswith_def)

lemma startswith_longer:
  "startswith old (s @ t) \<Longrightarrow> length old \<le> length s \<Longrightarrow> startswith old s"
  by (auto simp: startswith_def)

lemma str_replace_first:
  assumes "old \<noteq> []" "\<not> str_in old (a @ butlast old)"
  shows "str_replace old new (a @ old @ b) = a @ new @ str_replace old new b"
  using assms(2)
proof (induction a)
  case Nil
  obtain c cs where o: "old = c # cs" using assms(1) by (cases old) auto
  have "startswith old (c # cs @ b)" using startswith_append [of old b] o by simp
  then show ?case using o by simp
next
  case (Cons x a)
  have ns: "\<not> startswith old (x # a @ butlast old)"
    using Cons.prems startswith_str_in by fastforce
  have "\<not> startswith old ((x # a @ butlast old) @ [last old] @ b)"
  proof
    assume "startswith old ((x # a @ butlast old) @ [last old] @ b)"
    moreover have "length old \<le> length (x # a @ butlast old)" by simp
    ultimately have "startswith old (x # a @ butlast old)" by (rule startswith_longer)
    with ns show False by simp
  qed
  moreover have e: "butlast old @ last old # b = old @ b"
    using append_butlast_last_id [OF assms(1)] by (metis append.assoc append_Cons append_Nil)
  ultimately have n: "\<not> startswith old (x # a @ old @ b)" by (simp add: e)
  have "\<not> str_in old (a @ butlast old)" using Cons.prems by simp
  then have "str_replace old new (a @ old @ b) = a @ new @ str_replace old new b"
    by (rule Cons.IH)
  then show ?case using n assms(1) by simp
qed

text \<open>
  C7. Another expression gives its default string with \<open>**\<close> replaced by \<open>^\<close>: the
  string is unchanged when it has no \<open>**\<close>, and the first \<open>**\<close> becomes \<open>^\<close> with the
  text before it kept and the text after it treated in the same way.
\<close>

theorem sympy_to_matlab_generic:
  "sympy_to_matlab printer (Expr (Generic s)) = Inr (str_replace ''**'' ''^'' s) \<and>
   (\<not> str_in ''**'' s \<longrightarrow> sympy_to_matlab printer (Expr (Generic s)) = Inr s) \<and>
   (\<not> str_in ''**'' (a @ ''*'') \<longrightarrow>
      sympy_to_matlab printer (Expr (Generic (a @ ''**'' @ b)))
        = Inr (a @ ''^'' @ str_replace ''**'' ''^'' b))"
proof -
  have g: "\<And>t. sympy_to_matlab printer (Expr (Generic t)) = Inr (str_replace ''**'' ''^'' t)"
    by (simp add: sympy_to_matlab_Expr process_expression_string_def py_str_def)
  have 1: "\<not> str_in ''**'' s \<longrightarrow> str_replace ''**'' ''^'' s = s"
    by (simp add: str_replace_absent)
  have 2: "\<not> str_in ''**'' (a @ ''*'') \<longrightarrow>
      str_replace ''**'' ''^'' (a @ ''**'' @ b) = a @ ''^'' @ str_replace ''**'' ''^'' b"
    using str_replace_first [of "''**''" a "''^''" b] by simp
  show ?thesis using 1 2 by (simp add: g)
qed

theorem sympy_to_matlab_generic_witness:
  "\<not> str_in ''**'' ''x*'' \<and> \<not> str_in ''**'' ''2*x/y'' \<and>
   sympy_to_matlab (\<lambda>e. []) (Expr (Generic ''x**2 + 1'')) = Inr ''x^2 + 1'' \<and>
   sympy_to_matlab (\<lambda>e. []) (Expr (Generic ''2*x/y'')) = Inr ''2*x/y''"
proof -
  have h: "\<not> str_in ''**'' ''x*''" "\<not> str_in ''**'' ''2*x/y''" "\<not> str_in ''**'' ''2 + 1''"
    by (simp_all add: startswith_def)
  show ?thesis
    using h sympy_to_matlab_generic [of "\<lambda>e. []" "''2*x/y''" "''x''" "''2 + 1''"]
      sympy_to_matlab_generic [of "\<lambda>e. []" "''2 + 1''" "''x''" "''2 + 1''"]
    by simp
qed

text \<open>
  C8. An empty list raises the error of the empty expression list. A list with a
  first element \<open>e\<close> is unwrapped to \<open>e\<close>, and its conversion is the dispatch on \<open>e\<close>
  itself: the same result as for \<open>e\<close> given without a list, whatever the other
  elements are.
\<close>

theorem sympy_to_matlab_list:
  "sympy_to_matlab printer (List []) = Inl ValueError_empty_list \<and>
   handle_list_expression (List (e # es)) = Inr e \<and>
   sympy_to_matlab printer (List (e # es)) = convert_expr printer e \<and>
   sympy_to_matlab printer (List (e # es)) = sympy_to_matlab printer (Expr e)"
  by (simp add: sympy_to_matlab_def handle_list_expression_def)

end
